theory Spec2Isabelle
  imports Main "HOL-Library.AList"
begin

section \<open>Values, errors, query expressions\<close>

text \<open>
  Python values as far as the modelled functions look at them. \<open>PNone\<close> stands for
  \<open>None\<close> and for the missing value (NaN) of a data frame cell. A \<open>PSet\<close> keeps its
  elements in a list without repetitions.
\<close>

datatype pyval =
    PNone
  | PInt int
  | PStr string
  | PList "pyval list"
  | PTuple "pyval list"
  | PSet "pyval list"
  | PDict "(string \<times> pyval) list"

text \<open>Every exception the modelled code raises, or lets through, is a value.\<close>

datatype error =
    DataJointError string
  | AssertionError string
  | KeyError string
  | IndexError
  | TypeError
  | ValueError
  | AttributeError
  | StopIteration
  | DuplicateError string
  | UnknownAttributeError string
  | DatabaseError string

text \<open>
  A restriction of a table handle is an AND-list of conditions. A condition is an opaque
  user condition, a nested AND-list, an OR-list (what \<open>restrict\<close> adds when it is given a
  list) or the projection of another restricted table, with the renamed attributes
  (new name, old name).
\<close>

datatype restr =
    Cond string
  | AndList "restr list"
  | OrList "restr list"
  | Proj string "restr list" "(string \<times> string) list"

text \<open>A table handle: \<open>FreeTable(conn, full_table_name)\<close> and what was restricted onto it.\<close>

record table =
  full_table_name :: string
  restriction :: "restr list"

definition FreeTable :: "string \<Rightarrow> table" where
  "FreeTable name = \<lparr>full_table_name = name, restriction = []\<rparr>"

text \<open>
  Modelled from the spec: the query expression class (\<open>restrict\<close>, \<open>&\<close>, \<open>proj\<close>) is not
  among the sources. \<open>restrict\<close> adds one condition to the handle's AND-list, a list being
  an OR of its terms; \<open>proj\<close> is kept symbolic, to be interpreted by the database.
\<close>

definition restrict :: "table \<Rightarrow> restr \<Rightarrow> table" where
  "restrict t r = t\<lparr>restriction := restriction t @ [r]\<rparr>"

definition proj :: "table \<Rightarrow> (string \<times> string) list \<Rightarrow> restr" where
  "proj t renames = Proj (full_table_name t) (restriction t) renames"

type_synonym row = "(string \<times> pyval) list"

type_synonym database = "(string \<times> row list) list"

text \<open>The statements sent to the database.\<close>

datatype stmt =
    Insert string "string list" "pyval option list list" bool bool
  | InsertSelect string "string list" table bool bool
  | Delete string "restr list"
  | Update string "restr list" string "pyval option"
  | DropTable string

datatype event =
    LoadGraph
  | StartTransaction
  | CommitTransaction
  | CancelTransaction
  | Query stmt
  | Prompt string
  | Print string
  | Warning string
  | Log string

section \<open>The collaborators: dependency graph, database engine, configuration\<close>

record edge_props =
  primary :: bool
  aliased :: bool
  attr_map :: "(string \<times> string) list"

text \<open>
  The dependency graph is consumed through its query interface only:
  \<open>children name primary\<close> and \<open>parents name primary\<close> are the ordered dictionaries
  the graph returns (\<open>primary = None\<close> for every edge), \<open>descendants name\<close> is the
  topologically sorted list the graph returns for the node.
\<close>

record graph =
  descendants :: "string \<Rightarrow> string list"
  children :: "string \<Rightarrow> bool option \<Rightarrow> (string \<times> edge_props) list"
  parents :: "string \<Rightarrow> bool option \<Rightarrow> (string \<times> edge_props) list"

text \<open>
  What the code is run against: the graph, the headings the database reports, the
  configuration flag \<open>safemode\<close>, the answer the user types at a prompt, the
  flag \<open>_allow_insert\<close> of a table object (true where the attribute is absent: it is
  false on an auto-populated table outside its \<open>make\<close> call), and the database
  engine itself (\<open>exec\<close> runs a statement on the contents and returns the number of
  affected rows, or fails; \<open>count\<close> is \<open>len\<close> of a restricted table; \<open>declared\<close>
  answers \<open>SHOW TABLES\<close>; \<open>codec\<close> encodes one attribute value, \<open>None\<close> for the
  column default). A table that cannot be accessed has no heading
  (\<open>heading.attributes is None\<close>), and to iterate over it is a type error. The names of
  the graph are full table names in the quoted form.
\<close>

record env =
  dependencies :: graph
  heading :: "string \<Rightarrow> string list option"
  primary_key :: "string \<Rightarrow> string list"
  safemode :: bool
  user_choice :: string
  allow_insert :: "string \<Rightarrow> bool"
  exec :: "stmt \<Rightarrow> database \<Rightarrow> error + (nat \<times> database)"
  count :: "database \<Rightarrow> table \<Rightarrow> nat"
  declared :: "database \<Rightarrow> string \<Rightarrow> bool"
  codec :: "string \<Rightarrow> string \<Rightarrow> pyval \<Rightarrow> error + pyval option"

section \<open>The connection\<close>

text \<open>
  Modelled from the spec: the connection class is not among the sources. It exposes
  query execution, transaction begin, commit and cancel, and an "in transaction" flag.
  \<open>stored\<close> is what the database has persisted; while a transaction is open the
  statements work on \<open>pending\<close>, which a commit persists and a cancel throws away.
  \<open>trace\<close> records what was sent to the connection, the user and the log, in order.
\<close>

record conn =
  in_transaction :: bool
  stored :: database
  pending :: database
  trace :: "event list"

definition emit :: "event \<Rightarrow> conn \<Rightarrow> conn" where
  "emit e c = c\<lparr>trace := trace c @ [e]\<rparr>"

definition view :: "conn \<Rightarrow> database" where
  "view c = (if in_transaction c then pending c else stored c)"

definition start_transaction :: "conn \<Rightarrow> (error + unit) \<times> conn" where
  "start_transaction c =
     (if in_transaction c then (Inl (DataJointError ''Nested connections are not supported.''), c)
      else (Inr (), emit StartTransaction (c\<lparr>in_transaction := True, pending := stored c\<rparr>)))"

definition commit_transaction :: "conn \<Rightarrow> conn" where
  "commit_transaction c =
     emit CommitTransaction (c\<lparr>in_transaction := False, stored := view c\<rparr>)"

definition cancel_transaction :: "conn \<Rightarrow> conn" where
  "cancel_transaction c = emit CancelTransaction (c\<lparr>in_transaction := False\<rparr>)"

definition query :: "env \<Rightarrow> stmt \<Rightarrow> conn \<Rightarrow> (error + nat) \<times> conn" where
  "query E q c =
     (case exec E q (view c) of
        Inl e \<Rightarrow> (Inl e, emit (Query q) c)
      | Inr (n, db) \<Rightarrow>
          (Inr n, emit (Query q)
             (if in_transaction c then c\<lparr>pending := db\<rparr> else c\<lparr>stored := db\<rparr>)))"

section \<open>Strings\<close>

definition isdigit :: "string \<Rightarrow> bool" where
  "isdigit s \<longleftrightarrow> s \<noteq> [] \<and> list_all (\<lambda>ch. ch \<in> set ''0123456789'') s"

definition startswith :: "string \<Rightarrow> string \<Rightarrow> bool" where
  "startswith s p \<longleftrightarrow> take (length p) s = p"

fun str_nat :: "nat \<Rightarrow> string" where
  "str_nat n =
     (if n < 10 then [''0123456789'' ! n]
      else str_nat (n div 10) @ [''0123456789'' ! (n mod 10)])"

declare str_nat.simps [simp del]

section \<open>Cascading drop and delete (table.py)\<close>

text \<open>
  The event log of a schema (the \<open>~log\<close> table behind \<open>self._log\<close>) is outside the
  model: a logged statement is recorded in the trace only.
\<close>

definition drop_quick :: "env \<Rightarrow> table \<Rightarrow> conn \<Rightarrow> (error + unit) \<times> conn" where
  "drop_quick E self c =
     (if declared E (view c) (full_table_name self) then
        (case query E (DropTable (full_table_name self)) c of
           (Inl e, c') \<Rightarrow> (Inl e, c')
         | (Inr n, c') \<Rightarrow> (Inr (), emit (Log (''DROP TABLE '' @ full_table_name self)) c'))
      else (Inr (), c))"

fun drop_all :: "env \<Rightarrow> string list \<Rightarrow> conn \<Rightarrow> (error + unit) \<times> conn" where
  "drop_all E [] c = (Inr (), c)"
| "drop_all E (name # names) c =
     (case drop_quick E (FreeTable name) c of
        (Inl e, c') \<Rightarrow> (Inl e, c')
      | (Inr u, c') \<Rightarrow> drop_all E names c')"

definition print_tuples :: "env \<Rightarrow> string list \<Rightarrow> conn \<Rightarrow> conn" where
  "print_tuples E names c =
     foldl (\<lambda>c name. emit (Print (name @ '' ('' @ str_nat (count E (view c) (FreeTable name))
                                   @ '' tuples)'')) c) c names"

text \<open>\<open>Table.drop\<close> (named \<open>drop_cascade\<close>: \<open>drop\<close> is the list function).\<close>

definition drop_cascade :: "env \<Rightarrow> table \<Rightarrow> conn \<Rightarrow> (error + unit) \<times> conn" where
  "drop_cascade E self c =
     (if restriction self \<noteq> [] then
        (Inl (DataJointError ''A relation with an applied restriction condition cannot be dropped.''), c)
      else
        let c1 = emit LoadGraph c;
            tables = filter (\<lambda>name. \<not> isdigit name)
                       (descendants (dependencies E) (full_table_name self));
            c2 = (if safemode E then emit (Prompt ''Proceed?'') (print_tuples E tables c1) else c1);
            do_drop = (if safemode E then user_choice E = ''yes'' else True)
        in if do_drop then
             (case drop_all E (rev tables) c2 of
                (Inl e, c3) \<Rightarrow> (Inl e, c3)
              | (Inr u, c3) \<Rightarrow> (Inr (), emit (Print ''Tables dropped.  Restart kernel.'') c3))
           else (Inr (), c2))"

definition delete_quick :: "env \<Rightarrow> table \<Rightarrow> bool \<Rightarrow> conn \<Rightarrow> (error + nat option) \<times> conn" where
  "delete_quick E self get_count c =
     (case query E (Delete (full_table_name self) (restriction self)) c of
        (Inl e, c') \<Rightarrow> (Inl e, c')
      | (Inr n, c') \<Rightarrow>
          (Inr (if get_count then Some n else None),
           emit (Log (''DELETE FROM '' @ full_table_name self)) c'))"

text \<open>
  An entry of \<open>delete_list\<close>: a table handle, or for a numbered (renamed) node the first
  item of its parents, as the tuple \<open>_RenameMap\<close>.
\<close>

datatype entry = Tab table | RenameMap string edge_props

fun make_delete_list :: "env \<Rightarrow> string list \<Rightarrow> error + (string \<times> entry) list" where
  "make_delete_list E [] = Inr []"
| "make_delete_list E (name # names) =
     (case (if isdigit name then
              (case parents (dependencies E) name None of
                 [] \<Rightarrow> Inl StopIteration
               | (p, props) # others \<Rightarrow> Inr (RenameMap p props))
            else Inr (Tab (FreeTable name))) of
        Inl e \<Rightarrow> Inl e
      | Inr v \<Rightarrow>
          (case make_delete_list E names of
             Inl e \<Rightarrow> Inl e
           | Inr rest \<Rightarrow> Inr ((name, v) # filter (\<lambda>kv. fst kv \<noteq> name) rest)))"

text \<open>
  The nodes that restrict their children by their whole restricted relation, for the
  names of \<open>delete_list\<close>: the table itself if it carries a restriction, every renamed
  node of the list, and every non-primary child of a node of the list.
\<close>

definition restrict_by_me :: "env \<Rightarrow> table \<Rightarrow> string list \<Rightarrow> string list" where
  "restrict_by_me E self names =
     (if restriction self \<noteq> [] then [full_table_name self] else [])
     @ filter isdigit names
     @ concat (map (\<lambda>t. map fst (children (dependencies E) t (Some False))) names)"

text \<open>
  A term of a restriction list: the table's own restriction, or a reference to the entry
  of \<open>delete_list\<close> under a name. The entries are shared objects, restricted in place
  later on, so a term refers to the entry and is resolved when it is applied.
\<close>

datatype rterm = Own "restr list" | Ref string

definition getitem :: "(string \<times> 'a list) list \<Rightarrow> string \<Rightarrow> 'a list" where
  "getitem d k = (case map_of d k of None \<Rightarrow> [] | Some v \<Rightarrow> v)"

definition compile_restrictions ::
  "env \<Rightarrow> string list \<Rightarrow> string list \<Rightarrow> (string \<times> rterm list) list \<Rightarrow> (string \<times> rterm list) list" where
  "compile_restrictions E rbm names restrictions =
     foldl (\<lambda>rs name.
              foldl (\<lambda>rs dep.
                       AList.update dep
                         (getitem rs dep @ (if name \<in> set rbm then [Ref name] else getitem rs name)) rs)
                    rs (map fst (children (dependencies E) name None)))
           restrictions names"

definition resolve :: "(string \<times> entry) list \<Rightarrow> rterm \<Rightarrow> error + restr" where
  "resolve dl r =
     (case r of
        Own rs \<Rightarrow> Inr (AndList rs)
      | Ref n \<Rightarrow>
          (case map_of dl n of
             None \<Rightarrow> Inl (KeyError n)
           | Some (Tab t) \<Rightarrow> Inr (proj t [])
           | Some (RenameMap p props) \<Rightarrow>
               (case map_of dl p of
                  None \<Rightarrow> Inl (KeyError p)
                | Some (RenameMap p' props') \<Rightarrow> Inl AttributeError
                | Some (Tab t) \<Rightarrow> Inr (proj t (attr_map props)))))"

fun resolve_all :: "(string \<times> entry) list \<Rightarrow> rterm list \<Rightarrow> error + restr list" where
  "resolve_all dl [] = Inr []"
| "resolve_all dl (r # rs) =
     (case resolve dl r of
        Inl e \<Rightarrow> Inl e
      | Inr x \<Rightarrow> (case resolve_all dl rs of Inl e \<Rightarrow> Inl e | Inr xs \<Rightarrow> Inr (x # xs)))"

fun apply_restrictions ::
  "(string \<times> rterm list) list \<Rightarrow> string list \<Rightarrow> (string \<times> entry) list \<Rightarrow> error + (string \<times> entry) list" where
  "apply_restrictions rs [] dl = Inr dl"
| "apply_restrictions rs (name # names) dl =
     (if \<not> isdigit name \<and> getitem rs name \<noteq> [] then
        (case resolve_all dl (getitem rs name) of
           Inl e \<Rightarrow> Inl e
         | Inr terms \<Rightarrow>
             (case map_of dl name of
                Some (Tab t) \<Rightarrow>
                  apply_restrictions rs names (AList.update name (Tab (restrict t (OrList terms))) dl)
              | Some (RenameMap p props) \<Rightarrow> Inl AttributeError
              | None \<Rightarrow> Inl (KeyError name)))
      else apply_restrictions rs names dl)"

text \<open>The loop over the reversed list: delete, add up the counts, extend the message.\<close>

fun delete_loop ::
  "env \<Rightarrow> bool \<Rightarrow> (string \<times> entry) list \<Rightarrow> nat \<times> string \<Rightarrow> conn \<Rightarrow> (error + nat \<times> string) \<times> conn" where
  "delete_loop E verbose [] acc c = (Inr acc, c)"
| "delete_loop E verbose ((name, Tab t) # rest) (n_total, message) c =
     (if isdigit name then delete_loop E verbose rest (n_total, message) c
      else
        (case delete_quick E t True c of
           (Inl e, c') \<Rightarrow> (Inl e, c')
         | (Inr None, c') \<Rightarrow> (Inl TypeError, c')
         | (Inr (Some n), c') \<Rightarrow>
             delete_loop E verbose rest
               (n_total + n,
                if (verbose \<or> safemode E) \<and> n \<noteq> 0
                then message @ [CHR 10] @ name @ '': '' @ str_nat n @ '' items''
                else message) c'))"
| "delete_loop E verbose ((name, RenameMap p props) # rest) (n_total, message) c =
     (if isdigit name then delete_loop E verbose rest (n_total, message) c
      else (Inl AttributeError, c))"

text \<open>
  \<open>Table._delete\<close>: returns the message and the flag \<open>commit_transaction\<close> (the
  connection it also returns is the state).
\<close>

definition delete_helper ::
  "env \<Rightarrow> table \<Rightarrow> bool \<Rightarrow> bool \<Rightarrow> conn \<Rightarrow> (error + string \<times> bool) \<times> conn" where
  "delete_helper E self verbose force c =
     (let already_in_transaction = in_transaction c;
          safe = safemode E
      in
      if already_in_transaction \<and> safe then
        (Inl (DataJointError ''Cannot delete within a transaction in safemode.''), c)
      else
        let c1 = emit LoadGraph c in
        (case make_delete_list E (descendants (dependencies E) (full_table_name self)) of
           Inl e \<Rightarrow> (Inl e, c1)
         | Inr delete_list \<Rightarrow>
            let names = map fst delete_list;
                rbm = restrict_by_me E self names;
                restrictions = compile_restrictions E rbm names
                  (if restriction self \<noteq> []
                   then [(full_table_name self, [Own (restriction self)])] else [])
            in
            (case apply_restrictions restrictions names delete_list of
               Inl e \<Rightarrow> (Inl e, c1)
             | Inr delete_list \<Rightarrow>
                let message = (if safe then ''About to delete'' else []);
                    c2 = (if \<not> already_in_transaction then snd (start_transaction c1) else c1)
                in
                (case delete_loop E verbose (rev delete_list) (0, message) c2 of
                   (Inl e, c3) \<Rightarrow>
                     (Inl e, if \<not> already_in_transaction then cancel_transaction c3 else c3)
                 | (Inr (n_total, message), c3) \<Rightarrow>
                     if n_total = 0 then
                       (Inr (''Nothing to delete'', False),
                        if \<not> already_in_transaction then cancel_transaction c3 else c3)
                     else if already_in_transaction then
                       (Inr (if verbose
                             then [CHR 10] @ ''The delete is pending within the ongoing transaction.''
                             else message, False), c3)
                     else (Inr (message, \<not> safe \<or> force), c3)))))"

text \<open>\<open>Table.delete\<close>.\<close>

definition delete :: "env \<Rightarrow> table \<Rightarrow> bool \<Rightarrow> bool \<Rightarrow> conn \<Rightarrow> (error + unit) \<times> conn" where
  "delete E self verbose force c =
     (let safe = safemode E in
      case delete_helper E self verbose force c of
        (Inl e, c1) \<Rightarrow> (Inl e, c1)
      | (Inr (message, commit), c1) \<Rightarrow>
          let c2 = emit (Print message) c1;
              c3 = (if commit then c2 else emit (Prompt ''Proceed?'') c2)
          in if commit \<or> user_choice E = ''yes'' then
               (let c4 = commit_transaction c3
                in (Inr (), if verbose \<or> safe then emit (Print ''Commited.'') c4 else c4))
             else (Inr (), cancel_transaction c3))"

section \<open>Insertion (table.py)\<close>

text \<open>
  A row handed to \<open>insert\<close>: a numpy record, a mapping, a positional sequence, or a value
  that has no length.
\<close>

datatype pyrow = Void row | Mapping row | Positional "pyval list" | Unsized pyval

text \<open>A pandas data frame: its column names and its rows; a cell that is missing reads as NaN.\<close>

record dataframe =
  columns :: "string list"
  records :: "row list"

definition cell :: "row \<Rightarrow> string \<Rightarrow> pyval" where
  "cell r a = (case map_of r a of None \<Rightarrow> PNone | Some v \<Rightarrow> v)"

text \<open>The argument \<open>rows\<close> of \<open>insert\<close>: materialized rows, a data frame, or a query expression
  with the names of its heading.\<close>

datatype rows_arg = Rows "pyrow list" | DataFrameRows dataframe | QueryRows table "string list"

record insert_kwargs =
  replace :: bool
  skip_duplicates :: bool
  ignore_extra_fields :: bool
  allow_direct_insert :: "bool option"

text \<open>\<open>DataFrame.to_records()\<close>: one record per row, with the index as its first field.\<close>

definition to_records :: "dataframe \<Rightarrow> pyrow list" where
  "to_records df =
     map (\<lambda>(i, r). Void ((''index'', PInt (int i)) # map (\<lambda>a. (a, cell r a)) (columns df)))
       (enumerate 0 (records df))"

fun sequence :: "(error + 'a) list \<Rightarrow> error + 'a list" where
  "sequence [] = Inr []"
| "sequence (x # xs) =
     (case x of
        Inl e \<Rightarrow> Inl e
      | Inr v \<Rightarrow> (case sequence xs of Inl e \<Rightarrow> Inl e | Inr vs \<Rightarrow> Inr (v # vs)))"

text \<open>\<open>Table._check_fields\<close>, for a table whose heading is \<open>h\<close>.\<close>

definition check_fields :: "string list \<Rightarrow> string list \<Rightarrow> string list option \<Rightarrow> bool \<Rightarrow> error + unit" where
  "check_fields h flds field_list ignore_extra =
     (case field_list of
        None \<Rightarrow>
          if \<not> ignore_extra then
            (case find (\<lambda>field. field \<notin> set h) flds of
               Some field \<Rightarrow> Inl (KeyError field)
             | None \<Rightarrow> Inr ())
          else Inr ()
      | Some fl \<Rightarrow>
          if set fl \<noteq> set flds \<inter> set h
          then Inl (DataJointError ''Attempt to insert rows with different fields'')
          else Inr ())"

text \<open>
  \<open>Table._make_placeholder\<close>: \<open>None\<close> for a name to be ignored, else the name with the
  encoded value, \<open>None\<close> standing for the placeholder \<open>DEFAULT\<close>. The encoding itself
  (adapters, blobs, attachments, identifiers, numeric defaults) is the codec's.
\<close>

definition make_placeholder ::
  "env \<Rightarrow> table \<Rightarrow> string list \<Rightarrow> string \<Rightarrow> pyval \<Rightarrow> bool \<Rightarrow> error + (string \<times> pyval option) option" where
  "make_placeholder E self h name v ignore_extra =
     (if ignore_extra \<and> name \<notin> set h then Inr None
      else if name \<notin> set h then Inl (KeyError name)
      else (case codec E (full_table_name self) name v of
              Inl e \<Rightarrow> Inl e
            | Inr x \<Rightarrow> Inr (Some (name, x))))"

text \<open>
  \<open>Table._make_row_to_insert\<close>: the names with their placeholders and values. The
  names come from the heading, so no attribute is \<open>None\<close> when extra fields are not
  ignored.
\<close>

definition make_row_to_insert0 ::
  "env \<Rightarrow> table \<Rightarrow> string list \<Rightarrow> pyrow \<Rightarrow> bool \<Rightarrow> string list option
     \<Rightarrow> error + (string \<times> pyval option) list" where
  "make_row_to_insert0 E self h r ignore_extra field_list =
     (let by_name = (\<lambda>m.
            case check_fields h (map fst m) field_list ignore_extra of
              Inl e \<Rightarrow> Inl e
            | Inr u \<Rightarrow>
                sequence (List.map_filter
                  (\<lambda>name. map_option (\<lambda>v. make_placeholder E self h name v ignore_extra) (map_of m name))
                  h));
          attributes =
            (case r of
               Void m \<Rightarrow> by_name m
             | Mapping m \<Rightarrow> by_name m
             | Positional vs \<Rightarrow>
                 if length vs \<noteq> length h
                 then Inl (DataJointError ''Invalid insert argument. Incorrect number of attributes'')
                 else sequence (map (\<lambda>(name, v). make_placeholder E self h name v ignore_extra) (zip h vs))
             | Unsized v \<Rightarrow> Inl (DataJointError ''Datatype cannot be inserted''))
      in case attributes of
           Inl e \<Rightarrow> Inl e
         | Inr attrs \<Rightarrow>
             let attrs = List.map_filter id attrs
             in if attrs = [] then Inl (AssertionError ''Empty tuple'') else Inr attrs)"

text \<open>
  The closure \<open>make_row_to_insert\<close> of \<open>insert\<close>: the first row fixes \<open>field_list\<close>, a
  later row is put into that order.
\<close>

definition make_row_to_insert ::
  "env \<Rightarrow> table \<Rightarrow> string list \<Rightarrow> bool \<Rightarrow> string list option \<Rightarrow> pyrow
     \<Rightarrow> error + (string list option \<times> (string \<times> pyval option) list)" where
  "make_row_to_insert E self h ignore_extra field_list r =
     (case make_row_to_insert0 E self h r ignore_extra field_list of
        Inl e \<Rightarrow> Inl e
      | Inr row_to_insert \<Rightarrow>
          (case field_list of
             None \<Rightarrow> Inr (Some (map fst row_to_insert), row_to_insert)
           | Some fl \<Rightarrow>
               (case sequence (map (\<lambda>field. case map_of row_to_insert field of
                                              None \<Rightarrow> Inl ValueError
                                            | Some v \<Rightarrow> Inr (field, v)) fl) of
                  Inl e \<Rightarrow> Inl e
                | Inr ordered \<Rightarrow> Inr (Some fl, ordered))))"

fun rows_to_insert ::
  "env \<Rightarrow> table \<Rightarrow> string list \<Rightarrow> bool \<Rightarrow> string list option \<Rightarrow> pyrow list
     \<Rightarrow> error + (string list option \<times> (string \<times> pyval option) list list)" where
  "rows_to_insert E self h ignore_extra field_list [] = Inr (field_list, [])"
| "rows_to_insert E self h ignore_extra field_list (r # rs) =
     (case make_row_to_insert E self h ignore_extra field_list r of
        Inl e \<Rightarrow> Inl e
      | Inr (field_list', x) \<Rightarrow>
          (case rows_to_insert E self h ignore_extra field_list' rs of
             Inl e \<Rightarrow> Inl e
           | Inr (field_list'', xs) \<Rightarrow> Inr (field_list'', x # xs)))"

text \<open>\<open>Table.insert\<close> (named \<open>insert_rows\<close>: \<open>insert\<close> is the set function).\<close>

definition insert_rows ::
  "env \<Rightarrow> table \<Rightarrow> rows_arg \<Rightarrow> insert_kwargs \<Rightarrow> conn \<Rightarrow> (error + unit) \<times> conn" where
  "insert_rows E self rows kw c =
     (let rows = (case rows of DataFrameRows df \<Rightarrow> Rows (to_records df) | other \<Rightarrow> other)
      in
      if allow_direct_insert kw \<noteq> Some True \<and> \<not> allow_insert E (full_table_name self) then
        (Inl (DataJointError
           ''Inserts into an auto-populated table can only done inside its make method during a populate call.''), c)
      else
        (case rows of
           QueryRows src src_heading \<Rightarrow>
             (case heading E (full_table_name self) of
                None \<Rightarrow> (Inl TypeError, c)
              | Some h \<Rightarrow>
                  if \<not> ignore_extra_fields kw \<and> (\<exists>name \<in> set src_heading. name \<notin> set h) then
                    (Inl (DataJointError ''Attribute not found.''), c)
                  else if skip_duplicates kw \<and> primary_key E (full_table_name self) = [] then
                    (Inl IndexError, c)
                  else
                    (case query E (InsertSelect (full_table_name self)
                                     (filter (\<lambda>name. name \<in> set h) src_heading) src
                                     (replace kw) (skip_duplicates kw)) c of
                       (Inl e, c') \<Rightarrow> (Inl e, c')
                     | (Inr n, c') \<Rightarrow> (Inr (), c')))
         | DataFrameRows df \<Rightarrow> (Inl TypeError, c)
         | Rows rs \<Rightarrow>
             (case heading E (full_table_name self) of
                None \<Rightarrow> (Inr (), c)
              | Some h \<Rightarrow>
                  (case rows_to_insert E self h (ignore_extra_fields kw) None rs of
                     Inl e \<Rightarrow> (Inl e, c)
                   | Inr (field_list, rows) \<Rightarrow>
                       if rows \<noteq> [] then
                         if skip_duplicates kw \<and> primary_key E (full_table_name self) = [] then
                           (Inl IndexError, c)
                         else
                           (case query E (Insert (full_table_name self)
                                            (case field_list of None \<Rightarrow> [] | Some fl \<Rightarrow> fl)
                                            (map (map snd) rows)
                                            (replace kw) (skip_duplicates kw)) c of
                              (Inl e, c') \<Rightarrow> (Inl e, c')
                            | (Inr n, c') \<Rightarrow> (Inr (), c'))
                       else (Inr (), c)))))"

definition insert1 ::
  "env \<Rightarrow> table \<Rightarrow> pyrow \<Rightarrow> insert_kwargs \<Rightarrow> conn \<Rightarrow> (error + unit) \<times> conn" where
  "insert1 E self r kw c = insert_rows E self (Rows [r]) kw c"

subsection \<open>Part tables\<close>

fun split_on :: "char \<Rightarrow> string \<Rightarrow> string list" where
  "split_on d [] = [[]]"
| "split_on d (x # xs) =
     (if x = d then [] # split_on d xs
      else (case split_on d xs of [] \<Rightarrow> [[x]] | w # ws \<Rightarrow> (x # w) # ws))"

definition strip :: "char \<Rightarrow> string \<Rightarrow> string" where
  "strip ch s = rev (dropWhile (\<lambda>x. x = ch) (rev (dropWhile (\<lambda>x. x = ch) s)))"

text \<open>
  The constructor \<open>FreeTable(conn, full_table_name)\<close> splits the name at the dot, strips
  the backquotes and quotes the two parts again. On a name of the graph, which is in
  the quoted form already, it gives the handle \<open>FreeTable name\<close>.
\<close>

definition FreeTable_init :: "string \<Rightarrow> error + table" where
  "FreeTable_init name =
     (case split_on CHR ''.'' name of
        [database, table_name] \<Rightarrow>
          Inr (FreeTable ([CHR 0x60] @ strip (CHR 0x60) database @ [CHR 0x60] @ ''.''
                          @ [CHR 0x60] @ strip (CHR 0x60) table_name @ [CHR 0x60]))
      | other \<Rightarrow> Inl ValueError)"

text \<open>
  The property \<open>part_tables\<close>: the children, through a renamed node if need be, whose
  name without backquotes starts with the name of the table and two underscores.
\<close>

fun part_tables_of :: "env \<Rightarrow> string \<Rightarrow> (string \<times> edge_props) list \<Rightarrow> error + table list" where
  "part_tables_of E self_table_name [] = Inr []"
| "part_tables_of E self_table_name ((child_table_name, child_info) # rest) =
     (case (if aliased child_info then
              (case children (dependencies E) child_table_name None of
                 [] \<Rightarrow> Inl IndexError
               | (n, props) # others \<Rightarrow> Inr n)
            else Inr child_table_name) of
        Inl e \<Rightarrow> Inl e
      | Inr child_table_name \<Rightarrow>
          let child_table_name = filter (\<lambda>ch. ch \<noteq> CHR 0x60) child_table_name
          in if startswith child_table_name (self_table_name @ ''__'') then
               (case FreeTable_init child_table_name of
                  Inl e \<Rightarrow> Inl e
                | Inr part_table \<Rightarrow>
                    (case part_tables_of E self_table_name rest of
                       Inl e \<Rightarrow> Inl e
                     | Inr part_tables \<Rightarrow> Inr (part_table # part_tables)))
             else part_tables_of E self_table_name rest)"

definition part_tables :: "env \<Rightarrow> table \<Rightarrow> conn \<Rightarrow> (error + table list) \<times> conn" where
  "part_tables E self c =
     (part_tables_of E (filter (\<lambda>ch. ch \<noteq> CHR 0x60) (full_table_name self))
        (children (dependencies E) (full_table_name self) None),
      emit LoadGraph c)"

subsection \<open>insert1p\<close>

text \<open>
  Modelled from the spec: the context manager \<open>connection.transaction\<close> is not among the
  sources. It opens a transaction, commits it when the body returns and cancels it when
  the body raises, before the error surfaces.
\<close>

definition transaction ::
  "(conn \<Rightarrow> (error + 'a) \<times> conn) \<Rightarrow> conn \<Rightarrow> (error + 'a) \<times> conn" where
  "transaction body c =
     (case start_transaction c of
        (Inl e, c1) \<Rightarrow> (Inl e, cancel_transaction c1)
      | (Inr u, c1) \<Rightarrow>
          (case body c1 of
             (Inl e, c2) \<Rightarrow> (Inl e, cancel_transaction c2)
           | (Inr x, c2) \<Rightarrow> (Inr x, commit_transaction c2)))"

text \<open>The argument \<open>rows\<close> of \<open>insert1p\<close>.\<close>

datatype rows1p = Recarray dataframe | Dict row | DataFrame dataframe | OtherRows pyval

definition to_frame :: "rows1p \<Rightarrow> dataframe option" where
  "to_frame rows =
     (case rows of
        Recarray df \<Rightarrow> Some df
      | Dict r \<Rightarrow> Some \<lparr>columns = map fst r, records = [r]\<rparr>
      | DataFrame df \<Rightarrow> Some df
      | OtherRows v \<Rightarrow> None)"

text \<open>\<open>DataFrame.drop_duplicates(subset)\<close>: the first row of every value of the subset.\<close>

fun drop_duplicates :: "string list \<Rightarrow> row list \<Rightarrow> row list" where
  "drop_duplicates key [] = []"
| "drop_duplicates key (r # rs) =
     r # drop_duplicates key
           (filter (\<lambda>r'. map (cell r') key \<noteq> map (cell r) key) rs)"

text \<open>The projection of the rows on the primary key of the master, without duplicates.\<close>

definition master_keys :: "env \<Rightarrow> table \<Rightarrow> dataframe \<Rightarrow> pyval list list" where
  "master_keys E self df =
     remdups (map (\<lambda>r. map (cell r) (primary_key E (full_table_name self))) (records df))"

fun insert_parts ::
  "env \<Rightarrow> dataframe \<Rightarrow> insert_kwargs \<Rightarrow> table list \<Rightarrow> conn \<Rightarrow> (error + unit) \<times> conn" where
  "insert_parts E df kw [] c = (Inr (), c)"
| "insert_parts E df kw (part_table # rest) c =
     (case heading E (full_table_name part_table) of
        None \<Rightarrow> (Inl TypeError, c)
      | Some ph \<Rightarrow>
          let part_columns = filter (\<lambda>a. a \<in> set (columns df)) ph
          in if part_columns = [] then insert_parts E df kw rest c
             else if \<not> set (primary_key E (full_table_name part_table)) \<subseteq> set part_columns then
               (Inl (KeyError ''drop_duplicates''), c)
             else
               let part_input =
                     map (\<lambda>r. Mapping (map (\<lambda>a. (a, cell r a)) part_columns))
                       (drop_duplicates (primary_key E (full_table_name part_table)) (records df))
               in (case insert_rows E part_table (Rows part_input) kw c of
                     (Inl e, c') \<Rightarrow> (Inl e, c')
                   | (Inr u, c') \<Rightarrow> insert_parts E df kw rest c'))"

text \<open>The local function \<open>helper\<close> of \<open>insert1p\<close>.\<close>

definition helper ::
  "env \<Rightarrow> table \<Rightarrow> dataframe \<Rightarrow> row \<Rightarrow> insert_kwargs \<Rightarrow> conn \<Rightarrow> (error + unit) \<times> conn" where
  "helper E self df master_input kw c =
     (case insert1 E self (Mapping master_input) kw c of
        (Inl e, c1) \<Rightarrow> (Inl e, c1)
      | (Inr u, c1) \<Rightarrow>
          (case part_tables E self c1 of
             (Inl e, c2) \<Rightarrow> (Inl e, c2)
           | (Inr parts, c2) \<Rightarrow> insert_parts E df kw parts c2))"

definition insert1p ::
  "env \<Rightarrow> table \<Rightarrow> rows1p \<Rightarrow> insert_kwargs \<Rightarrow> conn \<Rightarrow> (error + unit) \<times> conn" where
  "insert1p E self rows kw c =
     (case to_frame rows of
        None \<Rightarrow>
          (Inl (DataJointError
             ''rows must be of type pandas dataframe, numpy recarray, or dict for insert1p''), c)
      | Some df \<Rightarrow>
          (case heading E (full_table_name self) of
             None \<Rightarrow> (Inl TypeError, c)
           | Some h \<Rightarrow>
               let cols = filter (\<lambda>a. a \<in> set (columns df)) h
               in if \<not> set (primary_key E (full_table_name self)) \<subseteq> set cols then
                    (Inl (AssertionError ''not all master primary key in dataframe for insert1p.''), c)
                  else if length (master_keys E self df) \<noteq> 1 then
                    (Inl (AssertionError ''master primary keys are not unique.''), c)
                  else
                    (case records df of
                       [] \<Rightarrow> (Inl IndexError, c)
                     | r0 # others \<Rightarrow>
                         let master_input =
                               filter (\<lambda>(a, v). v \<noteq> PNone) (map (\<lambda>a. (a, cell r0 a)) cols)
                         in if in_transaction c then helper E self df master_input kw c
                            else transaction (helper E self df master_input kw) c)))"

section \<open>AutoMake (automake.py)\<close>

text \<open>
  The value bound to an argument name in \<open>entry_settings\<close>: a string, a list, a tuple
  or a set of column names, a mapping from names to column names, or anything else.
\<close>

datatype binding =
    BStr string
  | BList "string list"
  | BTuple "string list"
  | BSet "string list"
  | BMapping "(string \<times> string) list"
  | BOther pyval

text \<open>\<open>entry[arg]\<close>.\<close>

definition getcol :: "row \<Rightarrow> string \<Rightarrow> error + pyval" where
  "getcol entry a = (case map_of entry a of None \<Rightarrow> Inl (KeyError a) | Some v \<Rightarrow> Inr v)"

fun hashable :: "pyval \<Rightarrow> bool" where
  "hashable PNone = True"
| "hashable (PInt i) = True"
| "hashable (PStr s) = True"
| "hashable (PTuple vs) = list_all hashable vs"
| "hashable (PList vs) = False"
| "hashable (PSet vs) = False"
| "hashable (PDict d) = False"

text \<open>
  One step of the loop over \<open>entry_settings\<close>: the value stored under the argument name.
  A sequence is rebuilt with the class of the binding itself.
\<close>

definition bind_arg :: "row \<Rightarrow> binding \<Rightarrow> error + pyval" where
  "bind_arg entry arg =
     (case arg of
        BStr a \<Rightarrow> getcol entry a
      | BList names \<Rightarrow>
          (case sequence (map (getcol entry) names) of
             Inl e \<Rightarrow> Inl e | Inr vs \<Rightarrow> Inr (PList vs))
      | BTuple names \<Rightarrow>
          (case sequence (map (getcol entry) names) of
             Inl e \<Rightarrow> Inl e | Inr vs \<Rightarrow> Inr (PTuple vs))
      | BSet names \<Rightarrow>
          (case sequence (map (getcol entry) names) of
             Inl e \<Rightarrow> Inl e
           | Inr vs \<Rightarrow> if list_all hashable vs then Inr (PSet (remdups vs)) else Inl TypeError)
      | BMapping m \<Rightarrow>
          (case sequence (map (\<lambda>(key, iarg). case getcol entry iarg of
                                               Inl e \<Rightarrow> Inl e
                                             | Inr v \<Rightarrow> Inr (key, v)) m) of
             Inl e \<Rightarrow> Inl e | Inr kvs \<Rightarrow> Inr (PDict kvs))
      | BOther v \<Rightarrow>
          Inl (DataJointError ''argument in entry settings must be str, tuple, or list''))"

fun apply_entry_settings ::
  "row \<Rightarrow> (string \<times> binding) list \<Rightarrow> (string \<times> pyval) list \<Rightarrow> error + (string \<times> pyval) list" where
  "apply_entry_settings entry [] kwargs = Inr kwargs"
| "apply_entry_settings entry ((kw, arg) # rest) kwargs =
     (case bind_arg entry arg of
        Inl e \<Rightarrow> Inl e
      | Inr v \<Rightarrow> apply_entry_settings entry rest (AList.update kw v kwargs))"

text \<open>What \<open>list.extend\<close> takes from a value: its elements, if it can be iterated.\<close>

definition iterate :: "pyval \<Rightarrow> error + pyval list" where
  "iterate v =
     (case v of
        PList vs \<Rightarrow> Inr vs
      | PTuple vs \<Rightarrow> Inr vs
      | PSet vs \<Rightarrow> Inr vs
      | PStr s \<Rightarrow> Inr (map (\<lambda>ch. PStr [ch]) s)
      | PDict d \<Rightarrow> Inr (map (\<lambda>kv. PStr (fst kv)) d)
      | PNone \<Rightarrow> Inl TypeError
      | PInt i \<Rightarrow> Inl TypeError)"

text \<open>
  What \<open>dict.update\<close> takes from a value: the items of a mapping, or of a sequence of
  pairs. A key of the keyword set is a string.
\<close>

definition pair_of :: "pyval \<Rightarrow> error + (string \<times> pyval)" where
  "pair_of v =
     (case v of
        PTuple [PStr k, x] \<Rightarrow> Inr (k, x)
      | PList [PStr k, x] \<Rightarrow> Inr (k, x)
      | other \<Rightarrow> Inl TypeError)"

definition update_items :: "pyval \<Rightarrow> error + (string \<times> pyval) list" where
  "update_items v =
     (case v of
        PDict d \<Rightarrow> Inr d
      | PList vs \<Rightarrow> sequence (map pair_of vs)
      | PTuple vs \<Rightarrow> sequence (map pair_of vs)
      | PSet vs \<Rightarrow> sequence (map pair_of vs)
      | PStr s \<Rightarrow> if s = [] then Inr [] else Inl ValueError
      | PNone \<Rightarrow> Inl TypeError
      | PInt i \<Rightarrow> Inl TypeError)"

definition dict_update :: "(string \<times> pyval) list \<Rightarrow> (string \<times> pyval) list \<Rightarrow> (string \<times> pyval) list" where
  "dict_update d items = foldl (\<lambda>d (k, v). AList.update k v d) d items"

text \<open>\<open>AutoMake._create_kwargs\<close>.\<close>

definition create_kwargs ::
  "row \<Rightarrow> (string \<times> binding) list \<Rightarrow> (string \<times> pyval) list \<Rightarrow> string option \<Rightarrow> string option
     \<Rightarrow> error + (pyval list \<times> (string \<times> pyval) list)" where
  "create_kwargs entry entry_settings global_settings settings_args settings_kwargs =
     (case apply_entry_settings entry entry_settings global_settings of
        Inl e \<Rightarrow> Inl e
      | Inr kwargs \<Rightarrow>
          (case (case settings_args of
                   None \<Rightarrow> Inr ([], kwargs)
                 | Some a \<Rightarrow>
                     (case map_of kwargs a of
                        None \<Rightarrow> Inl (KeyError a)
                      | Some v \<Rightarrow>
                          (case iterate v of
                             Inl e \<Rightarrow> Inl e
                           | Inr xs \<Rightarrow> Inr (xs, AList.delete a kwargs)))) of
             Inl e \<Rightarrow> Inl e
           | Inr (args, kwargs) \<Rightarrow>
               (case settings_kwargs of
                  None \<Rightarrow> Inr (args, kwargs)
                | Some b \<Rightarrow>
                    (case map_of kwargs b of
                       None \<Rightarrow> Inl (KeyError b)
                     | Some v \<Rightarrow>
                         (case update_items v of
                            Inl e \<Rightarrow> Inl e
                          | Inr items \<Rightarrow> Inr (args, dict_update (AList.delete b kwargs) items))))))"

subsection \<open>make\<close>

text \<open>What the computation function returns.\<close>

datatype func_output =
    ONone
  | ODict row
  | ORecarray dataframe
  | ODataFrame dataframe
  | OOther pyval

record settings =
  settings_name :: string
  fetch_method :: string
  parse_unique :: "string list"
  entry_settings :: "(string \<times> binding) list"
  global_settings :: "(string \<times> pyval) list"
  args :: "string option"
  kwargs :: "string option"
  func :: "pyval list \<Rightarrow> (string \<times> pyval) list \<Rightarrow> error + func_output"

definition contains :: "string \<Rightarrow> string \<Rightarrow> bool" where
  "contains sub s \<longleftrightarrow> (\<exists>i \<in> set [0 ..< Suc (length s)]. take (length sub) (drop i s) = sub)"

text \<open>
  The entry of \<open>make\<close>, from the rows that the joined upstream tables hold for the key:
  the one row for a \<open>fetch1\<close> method, else the columns, a column named in
  \<open>parse_unique\<close> reduced to its first value.
\<close>

definition fetch_entry :: "settings \<Rightarrow> row list \<Rightarrow> error + row" where
  "fetch_entry s found =
     (if contains ''fetch1'' (fetch_method s) then
        (if fetch_method s \<noteq> ''fetch1'' then Inl AttributeError
         else (case found of
                 [r] \<Rightarrow> Inr r
               | other \<Rightarrow> Inl (DataJointError ''fetch1 should only return one tuple.'')))
      else
        (case found of
           [] \<Rightarrow> Inl (DataJointError ''empty joined table for key'')
         | r # rs \<Rightarrow>
             if fetch_method s \<noteq> ''fetch'' then Inl AttributeError
             else Inr (map (\<lambda>column.
                              (column,
                               if column \<in> set (parse_unique s) then cell r column
                               else PList (map (\<lambda>r'. cell r' column) (r # rs))))
                         (map fst r))))"

text \<open>
  The steps of \<open>make\<close> between the hook \<open>make_compatible\<close> and the write: a null
  result becomes an empty record with a warning, a record array becomes a data frame,
  and the shape is checked against \<open>has_part_tables\<close>.
\<close>

definition null_to_empty :: "func_output \<Rightarrow> conn \<Rightarrow> func_output \<times> conn" where
  "null_to_empty out c =
     (if out = ONone then (ODict [], emit (Warning ''output of function is None for key'') c)
      else (out, c))"

definition recarray_to_frame :: "func_output \<Rightarrow> func_output" where
  "recarray_to_frame out = (case out of ORecarray df \<Rightarrow> ODataFrame df | other \<Rightarrow> other)"

definition check_shape :: "bool \<Rightarrow> func_output \<Rightarrow> error + func_output" where
  "check_shape has_part_tables out =
     (if has_part_tables
         \<and> \<not> (case out of ODataFrame df \<Rightarrow> True | ODict d \<Rightarrow> True | other \<Rightarrow> False) then
        Inl (DataJointError ''output must be dataframe or dict for table with part tables.'')
      else if \<not> has_part_tables \<and> \<not> (case out of ODict d \<Rightarrow> True | other \<Rightarrow> False) then
        Inl (DataJointError ''ouput must be dict for table without part tables.'')
      else Inr out)"

text \<open>
  \<open>AutoMake.make\<close> up to the shape check, for the rows found upstream and the hook
  \<open>make_compatible\<close> of the table; the checked output is then completed from the entry
  and written by \<open>insert1p\<close> or \<open>insert1\<close>. \<open>has_part_tables\<close> is whether the
  property \<open>part_tables\<close> is a non-empty tuple.
\<close>

definition make_checked ::
  "env \<Rightarrow> table \<Rightarrow> settings \<Rightarrow> (func_output \<Rightarrow> func_output) \<Rightarrow> row list \<Rightarrow> conn
     \<Rightarrow> (error + func_output) \<times> conn" where
  "make_checked E self s make_compatible found c =
     (case fetch_entry s found of
        Inl e \<Rightarrow> (Inl e, c)
      | Inr entry \<Rightarrow>
          (case create_kwargs entry (entry_settings s) (global_settings s) (args s) (kwargs s) of
             Inl e \<Rightarrow> (Inl e, c)
           | Inr (a, kw) \<Rightarrow>
               (case func s a kw of
                  Inl e \<Rightarrow> (Inl e, c)
                | Inr out \<Rightarrow>
                    (case null_to_empty (make_compatible out) c of
                       (out, c1) \<Rightarrow>
                         (case part_tables E self c1 of
                            (Inl e, c2) \<Rightarrow> (Inl e, c2)
                          | (Inr parts, c2) \<Rightarrow>
                              (check_shape (parts \<noteq> []) (recarray_to_frame out), c2))))))"

section \<open>Updates guarded by the downstream check (table.py)\<close>

text \<open>
  The dependency graph of a connection holds nodes once it has been loaded:
  \<open>not self.connection.dependencies\<close> is the negation of this.
\<close>

definition dependencies_loaded :: "conn \<Rightarrow> bool" where
  "dependencies_loaded c \<longleftrightarrow> LoadGraph \<in> set (trace c)"




definition dependent_message :: string where
  "dependent_message =
     ''Save update failure: Entries of downstream autopopulated tables depend on self. ''
     @ ''Delete appropriate entries in dependent autopopulated tables before editing entries in self.''"




section \<open>A small database engine and schemas to run the code on\<close>

definition rows_of :: "database \<Rightarrow> string \<Rightarrow> row list" where
  "rows_of db name = (case map_of db name of None \<Rightarrow> [] | Some rs \<Rightarrow> rs)"

text \<open>
  An engine that ignores restrictions: an insert appends the rows, a delete empties the
  table and counts what it removed, an update sets the attribute in every row, a drop
  removes the table. A statement on a table listed in \<open>broken\<close> fails.
\<close>

definition toy_exec :: "string list \<Rightarrow> stmt \<Rightarrow> database \<Rightarrow> error + (nat \<times> database)" where
  "toy_exec broken q db =
     (case q of
        Insert name field_list vals rep skip \<Rightarrow>
          if name \<in> set broken then Inl (DatabaseError name)
          else Inr (length vals,
                    AList.update name
                      (rows_of db name @ map (\<lambda>vs. zip field_list (map (case_option PNone id) vs)) vals) db)
      | InsertSelect name field_list src rep skip \<Rightarrow>
          if name \<in> set broken then Inl (DatabaseError name) else Inr (0, db)
      | Delete name rs \<Rightarrow>
          if name \<in> set broken then Inl (DatabaseError name)
          else Inr (length (rows_of db name), AList.update name [] db)
      | Update name rs attr v \<Rightarrow>
          if name \<in> set broken then Inl (DatabaseError name)
          else Inr (length (rows_of db name),
                    AList.update name
                      (map (AList.update attr (case_option PNone id v)) (rows_of db name)) db)
      | DropTable name \<Rightarrow>
          if name \<in> set broken then Inl (DatabaseError name) else Inr (0, AList.delete name db))"

definition toy_env ::
  "graph \<Rightarrow> (string \<times> string list) list \<Rightarrow> (string \<times> string list) list \<Rightarrow> bool \<Rightarrow> string
     \<Rightarrow> string list \<Rightarrow> env" where
  "toy_env g headings keys safe answer broken =
     \<lparr>dependencies = g,
      heading = map_of headings,
      primary_key = (\<lambda>name. case map_of keys name of None \<Rightarrow> [] | Some k \<Rightarrow> k),
      safemode = safe,
      user_choice = answer,
      allow_insert = (\<lambda>name. True),
      exec = toy_exec broken,
      count = (\<lambda>db t. length (rows_of db (full_table_name t))),
      declared = (\<lambda>db name. name \<in> fst ` set db),
      codec = (\<lambda>name attr v. Inr (if v = PNone then None else Some v))\<rparr>"

text \<open>One table \<open>session\<close> with one row and nothing that depends on it.\<close>

definition session_graph :: graph where
  "session_graph =
     \<lparr>descendants = (\<lambda>name. [name]), children = (\<lambda>name p. []), parents = (\<lambda>name p. [])\<rparr>"

definition session_env :: "bool \<Rightarrow> string \<Rightarrow> env" where
  "session_env safe answer =
     toy_env session_graph [(''`lab`.`session`'', [''id'', ''note''])]
       [(''`lab`.`session`'', [''id''])] safe answer []"

definition session_db :: database where
  "session_db = [(''`lab`.`session`'', [[(''id'', PInt 5), (''note'', PStr ''a'')]])]"

text \<open>A connection inside a transaction that an outer call has opened.\<close>

definition inherited :: conn where
  "inherited =
     \<lparr>in_transaction = True, stored = session_db, pending = session_db,
      trace = [StartTransaction]\<rparr>"

definition idle :: conn where
  "idle = \<lparr>in_transaction = False, stored = session_db, pending = [], trace = []\<rparr>"

text \<open>
  Table \<open>a\<close> with a primary child \<open>b\<close>; \<open>b\<close> is referenced by \<open>c\<close> through a renamed
  foreign key, that is through the numbered node \<open>1\<close>. No edge is secondary.
\<close>

definition renamed_graph :: graph where
  "renamed_graph =
     \<lparr>descendants = (\<lambda>name.
        if name = ''`s`.`a`'' then [''`s`.`a`'', ''`s`.`b`'', ''1'', ''`s`.`c`'']
        else if name = ''`s`.`b`'' then [''`s`.`b`'', ''1'', ''`s`.`c`'']
        else [name]),
      children = (\<lambda>name p.
        if p = Some False then []
        else if name = ''`s`.`a`''
          then [(''`s`.`b`'', \<lparr>primary = True, aliased = False, attr_map = [(''id'', ''id'')]\<rparr>)]
        else if name = ''`s`.`b`''
          then [(''1'', \<lparr>primary = True, aliased = True, attr_map = [(''src'', ''id'')]\<rparr>)]
        else if name = ''1''
          then [(''`s`.`c`'', \<lparr>primary = True, aliased = True, attr_map = [(''src'', ''id'')]\<rparr>)]
        else []),
      parents = (\<lambda>name p.
        if p = Some False then []
        else if name = ''`s`.`b`''
          then [(''`s`.`a`'', \<lparr>primary = True, aliased = False, attr_map = [(''id'', ''id'')]\<rparr>)]
        else if name = ''1''
          then [(''`s`.`b`'', \<lparr>primary = True, aliased = True, attr_map = [(''src'', ''id'')]\<rparr>)]
        else if name = ''`s`.`c`''
          then [(''1'', \<lparr>primary = True, aliased = True, attr_map = [(''src'', ''id'')]\<rparr>)]
        else [])\<rparr>"

definition renamed_env :: env where
  "renamed_env = toy_env renamed_graph [] [] False ''no'' []"

text \<open>
  The set \<open>restrictByMe\<close> in the words of the specification: the table, every
  projection node of an edge from the table, and every secondary child of a node of
  \<open>D\<close>, the descendants with the table itself.
\<close>

definition restrictByMe_spec :: "env \<Rightarrow> table \<Rightarrow> string set" where
  "restrictByMe_spec E T =
     {full_table_name T}
     \<union> {n \<in> fst ` set (children (dependencies E) (full_table_name T) None). isdigit n}
     \<union> (\<Union>d \<in> set (descendants (dependencies E) (full_table_name T)) \<union> {full_table_name T}.
          fst ` set (children (dependencies E) d (Some False)))"

text \<open>A stretch of the trace in which no transaction is opened, committed or cancelled.\<close>

definition quiet :: "event list \<Rightarrow> bool" where
  "quiet evs \<longleftrightarrow>
     StartTransaction \<notin> set evs \<and> CommitTransaction \<notin> set evs \<and> CancelTransaction \<notin> set evs"

text \<open>
  A master table \<open>scan\<close> with one part table \<open>scan__frame\<close>, and a record of one scan
  with two frames.
\<close>

definition scan_graph :: graph where
  "scan_graph =
     \<lparr>descendants = (\<lambda>name.
        if name = ''`lab`.`scan`'' then [''`lab`.`scan`'', ''`lab`.`scan__frame`''] else [name]),
      children = (\<lambda>name p.
        if name = ''`lab`.`scan`'' \<and> p \<noteq> Some False
        then [(''`lab`.`scan__frame`'',
               \<lparr>primary = True, aliased = False, attr_map = [(''scan_id'', ''scan_id'')]\<rparr>)]
        else []),
      parents = (\<lambda>name p.
        if name = ''`lab`.`scan__frame`'' \<and> p \<noteq> Some False
        then [(''`lab`.`scan`'',
               \<lparr>primary = True, aliased = False, attr_map = [(''scan_id'', ''scan_id'')]\<rparr>)]
        else [])\<rparr>"

definition scan_env :: "string list \<Rightarrow> env" where
  "scan_env broken =
     toy_env scan_graph
       [(''`lab`.`scan`'', [''scan_id'', ''depth'']),
        (''`lab`.`scan__frame`'', [''scan_id'', ''frame'', ''value''])]
       [(''`lab`.`scan`'', [''scan_id'']),
        (''`lab`.`scan__frame`'', [''scan_id'', ''frame''])]
       False ''no'' broken"



text \<open>A record that lacks the primary key of the master.\<close>

definition keyless :: row where
  "keyless = [(''depth'', PInt 100), (''frame'', PInt 0), (''value'', PInt 7)]"

definition default_kwargs :: insert_kwargs where
  "default_kwargs =
     \<lparr>replace = False, skip_duplicates = False, ignore_extra_fields = False,
      allow_direct_insert = None\<rparr>"

definition empty_conn :: conn where
  "empty_conn = \<lparr>in_transaction = False, stored = [], pending = [], trace = []\<rparr>"

text \<open>A statement that inserts into the table of the given name.\<close>

definition inserts_into :: "string \<Rightarrow> stmt \<Rightarrow> bool" where
  "inserts_into name s =
     (case s of
        Insert n fl vals rep skip \<Rightarrow> n = name
      | InsertSelect n fl src rep skip \<Rightarrow> n = name
      | other \<Rightarrow> False)"


text \<open>The shapes of a result: a mapping, a tabular structure.\<close>

definition is_mapping :: "func_output \<Rightarrow> bool" where
  "is_mapping out = (case out of ODict d \<Rightarrow> True | other \<Rightarrow> False)"

definition is_tabular :: "func_output \<Rightarrow> bool" where
  "is_tabular out = (case out of ODataFrame df \<Rightarrow> True | ORecarray df \<Rightarrow> True | other \<Rightarrow> False)"

text \<open>
  The example of the specification: a single-row fetch with the bindings \<open>x\<close> to
  \<open>colA\<close> and \<open>y\<close> to the tuple of \<open>colB\<close> and \<open>colC\<close>; the global settings give a
  default for \<open>x\<close>, and carry the values to splice under \<open>extra\<close> and \<open>opts\<close>.
\<close>

definition example_entry :: row where
  "example_entry = [(''colA'', PInt 1), (''colB'', PInt 2), (''colC'', PInt 3)]"

definition example_settings :: settings where
  "example_settings =
     \<lparr>settings_name = ''default'',
      fetch_method = ''fetch1'',
      parse_unique = [],
      entry_settings = [(''x'', BStr ''colA''), (''y'', BTuple [''colB'', ''colC''])],
      global_settings = [(''x'', PInt 0), (''z'', PInt 9),
                         (''extra'', PList [PInt 7, PInt 8]),
                         (''opts'', PDict [(''w'', PStr ''on'')])],
      args = Some ''extra'',
      kwargs = Some ''opts'',
      func = (\<lambda>a kw. Inr (OOther (PList a)))\<rparr>"






text \<open>
  The connection after the check differs from the one before by notes in the trace
  only: loads of the graph, and warnings if the policy is to warn.
\<close>

definition only_notes :: "string \<Rightarrow> conn \<Rightarrow> conn \<Rightarrow> bool" where
  "only_notes err c c' \<longleftrightarrow>
     stored c' = stored c \<and> pending c' = pending c \<and> in_transaction c' = in_transaction c
     \<and> (\<exists>evs. trace c' = trace c @ evs
             \<and> set evs \<subseteq> {LoadGraph} \<union> (if err = ''warn'' then {Warning dependent_message} else {}))"





section \<open>Properties of drop and delete\<close>

lemma make_delete_list_names:
  "make_delete_list E names = Inr dl \<Longrightarrow> set (map fst dl) = set names"
proof (induction names arbitrary: dl)
  case Nil
  then show ?case by simp
next
  case (Cons name names)
  then show ?case
    by (auto split: sum.splits if_splits list.splits) force+
qed

text \<open>
  C8: \<open>drop\<close> on a handle that carries a restriction raises at once. The connection is
  returned as it was: the graph was not loaded, nothing was asked, printed or dropped.
\<close>

theorem drop_restricted_raises:
  "restriction self \<noteq> [] \<Longrightarrow> \<exists>msg. drop_cascade E self c = (Inl (DataJointError msg), c)"
  by (simp add: drop_cascade_def)

theorem drop_restricted_raises_witness:
  "restriction (restrict (FreeTable ''`lab`.`session`'') (Cond ''id=5'')) \<noteq> []
   \<and> (\<exists>msg. drop_cascade (session_env False ''yes'')
               (restrict (FreeTable ''`lab`.`session`'') (Cond ''id=5'')) idle
             = (Inl (DataJointError msg), idle))"
proof -
  have h: "restriction (restrict (FreeTable ''`lab`.`session`'') (Cond ''id=5'')) \<noteq> []"
    by (simp add: restrict_def FreeTable_def)
  show ?thesis
    using h drop_restricted_raises [OF h, of "session_env False ''yes''" idle] by simp
qed

text \<open>
  C7: with safemode on and a transaction already open, \<open>_delete\<close> and so \<open>delete\<close> raise
  before anything else happens. The connection is returned as it was: no graph load, no
  statement, no transaction opened, committed or cancelled.
\<close>

theorem delete_in_transaction_safemode_raises:
  "in_transaction c \<Longrightarrow> safemode E \<Longrightarrow>
     (\<exists>msg. delete_helper E self verbose force c = (Inl (DataJointError msg), c))
   \<and> (\<exists>msg. delete E self verbose force c = (Inl (DataJointError msg), c))"
  by (simp add: delete_def delete_helper_def)

theorem delete_in_transaction_safemode_raises_witness:
  "in_transaction inherited \<and> safemode (session_env True ''yes'')
   \<and> (\<exists>msg. delete_helper (session_env True ''yes'') (FreeTable ''`lab`.`session`'') True False inherited
             = (Inl (DataJointError msg), inherited))
   \<and> (\<exists>msg. delete (session_env True ''yes'') (FreeTable ''`lab`.`session`'') True False inherited
             = (Inl (DataJointError msg), inherited))"
proof -
  have h1: "in_transaction inherited" by (simp add: inherited_def)
  have h2: "safemode (session_env True ''yes'')" by (simp add: session_env_def toy_env_def)
  show ?thesis
    using h1 h2 delete_in_transaction_safemode_raises [OF h1 h2] by simp
qed

subsection \<open>A delete inside a transaction of an outer call\<close>

lemma query_joined:
  "in_transaction c \<Longrightarrow> query E q c = (r, c') \<Longrightarrow>
     in_transaction c' \<and> stored c' = stored c \<and> trace c' = trace c @ [Query q]"
  by (auto simp: query_def emit_def split: sum.splits prod.splits)

lemma delete_quick_joined:
  assumes "in_transaction c" and "delete_quick E t g c = (r, c')"
  shows "in_transaction c' \<and> stored c' = stored c \<and> (\<exists>evs. trace c' = trace c @ evs \<and> quiet evs)"
proof -
  obtain r1 c1 where q: "query E (Delete (full_table_name t) (restriction t)) c = (r1, c1)"
    by (cases "query E (Delete (full_table_name t) (restriction t)) c")
  from query_joined [OF assms(1) q] assms(2) q show ?thesis
    by (cases r1) (auto simp: delete_quick_def emit_def quiet_def)
qed

lemma delete_loop_joined:
  "in_transaction c \<Longrightarrow> delete_loop E verbose dl acc c = (r, c') \<Longrightarrow>
     in_transaction c' \<and> stored c' = stored c \<and> (\<exists>evs. trace c' = trace c @ evs \<and> quiet evs)"
proof (induction dl arbitrary: acc c)
  case Nil
  then show ?case by (cases acc) (simp add: quiet_def)
next
  case (Cons x rest)
  obtain name ent where x: "x = (name, ent)" by (cases x)
  obtain n_total message where acc: "acc = (n_total, message)" by (cases acc)
  show ?case
  proof (cases "isdigit name")
    case True
    with Cons x acc show ?thesis by (cases ent) simp_all
  next
    case False
    show ?thesis
    proof (cases ent)
      case (RenameMap p props)
      with Cons.prems x acc False show ?thesis by (simp add: quiet_def)
    next
      case (Tab t)
      obtain r1 c1 where q: "delete_quick E t True c = (r1, c1)"
        by (cases "delete_quick E t True c")
      from delete_quick_joined [OF Cons.prems(1) q]
      obtain evs1 where c1: "in_transaction c1" "stored c1 = stored c"
        "trace c1 = trace c @ evs1" "quiet evs1" by blast
      show ?thesis
      proof (cases r1)
        case (Inl e)
        with False q Cons.prems(2) c1 x acc Tab show ?thesis by auto
      next
        case (Inr cnt)
        show ?thesis
        proof (cases cnt)
          case None
          with False q Inr Cons.prems(2) c1 x acc Tab show ?thesis by auto
        next
          case (Some n)
          from Cons.prems(2) False q Inr Some x acc Tab
          obtain acc' where run: "delete_loop E verbose rest acc' c1 = (r, c')"
            by simp
          from Cons.IH [OF c1(1) run]
          obtain evs2 where "in_transaction c'" "stored c' = stored c1"
            "trace c' = trace c1 @ evs2" "quiet evs2" by auto
          with c1 show ?thesis by (auto simp: quiet_def)
        qed
      qed
    qed
  qed
qed

text \<open>
  \<open>_delete\<close> by itself joins the open transaction and leaves it open: it neither starts,
  commits nor cancels, and what is persisted stays as it was.
\<close>

lemma delete_helper_joined:
  assumes "in_transaction c" and "delete_helper E self verbose force c = (r, c')"
  shows "in_transaction c' \<and> stored c' = stored c
         \<and> (\<exists>evs. trace c' = trace c @ evs \<and> quiet evs)"
proof (cases "safemode E")
  case True
  with assms show ?thesis by (simp add: delete_helper_def quiet_def)
next
  case False
  have load: "in_transaction (emit LoadGraph c)" "stored (emit LoadGraph c) = stored c"
    "trace (emit LoadGraph c) = trace c @ [LoadGraph]"
    using assms(1) by (simp_all add: emit_def)
  have step: "in_transaction c' \<and> stored c' = stored c
              \<and> (\<exists>evs. trace c' = trace c @ evs \<and> quiet evs)"
    if "delete_loop E v dl acc (emit LoadGraph c) = (r0, c')" for dl acc r0 v
  proof -
    from delete_loop_joined [OF load(1) that] load(2,3)
    obtain evs where "in_transaction c'" "stored c' = stored c"
      "trace c' = trace c @ LoadGraph # evs" "quiet evs" by auto
    then show ?thesis by (auto simp: quiet_def)
  qed
  from assms False show ?thesis
    by (auto simp: delete_helper_def Let_def load quiet_def
             split: sum.splits prod.splits if_splits dest!: step)
qed

text \<open>
  C1: \<open>delete\<close>, however, finalizes the transaction it was called in. Whenever it
  returns, a commit or a cancel has been sent on the connection after \<open>_delete\<close>
  reported, and the connection is no longer in the transaction the outer call opened.
\<close>

theorem delete_finalizes_inherited_transaction:
  assumes "in_transaction c" and "delete E self verbose force c = (Inr u, c')"
  shows "\<not> in_transaction c'
         \<and> (\<exists>evs. trace c' = trace c @ evs
                \<and> (CommitTransaction \<in> set evs \<or> CancelTransaction \<in> set evs))"
proof -
  obtain r1 c1 where dh: "delete_helper E self verbose force c = (r1, c1)"
    by (cases "delete_helper E self verbose force c")
  from delete_helper_joined [OF assms(1) dh]
  obtain evs1 where c1: "trace c1 = trace c @ evs1" by blast
  show ?thesis
  proof (cases r1)
    case (Inl e)
    with assms(2) dh show ?thesis by (simp add: delete_def)
  next
    case (Inr mc)
    obtain message commit where mc: "mc = (message, commit)" by (cases mc)
    from assms(2) dh Inr mc c1 show ?thesis
      by (auto simp: delete_def Let_def commit_transaction_def cancel_transaction_def emit_def
               split: if_splits)
  qed
qed

text \<open>
  An instance: one row to delete, safemode off, inside a transaction of an outer call,
  and the user answers "no" to the prompt. The inherited transaction is cancelled.
\<close>

theorem delete_finalizes_inherited_transaction_witness:
  "in_transaction inherited
   \<and> fst (delete (session_env False ''no'') (FreeTable ''`lab`.`session`'') True False inherited)
       = Inr ()
   \<and> \<not> in_transaction (snd (delete (session_env False ''no'') (FreeTable ''`lab`.`session`'')
                                True False inherited))
   \<and> last (trace (snd (delete (session_env False ''no'') (FreeTable ''`lab`.`session`'')
                          True False inherited))) = CancelTransaction"
proof -
  have h1: "in_transaction inherited" by (simp add: inherited_def)
  have ev: "fst (delete (session_env False ''no'') (FreeTable ''`lab`.`session`'') True False inherited)
              = Inr ()
            \<and> last (trace (snd (delete (session_env False ''no'') (FreeTable ''`lab`.`session`'')
                          True False inherited))) = CancelTransaction"
    by (simp add: delete_def delete_helper_def session_env_def toy_env_def session_graph_def
        FreeTable_def inherited_def isdigit_def restrict_by_me_def compile_restrictions_def
        emit_def delete_quick_def query_def view_def toy_exec_def rows_of_def session_db_def
        cancel_transaction_def commit_transaction_def getitem_def str_nat.simps)
  then have h2: "delete (session_env False ''no'') (FreeTable ''`lab`.`session`'') True False inherited
      = (Inr (), snd (delete (session_env False ''no'') (FreeTable ''`lab`.`session`'')
                        True False inherited))"
    by (metis prod.collapse)
  from delete_finalizes_inherited_transaction [OF h1 h2] h1 ev show ?thesis by simp
qed

text \<open>
  On the same input \<open>_delete\<close> reports the delete as pending and leaves the transaction
  open; an answer "yes" to the prompt of \<open>delete\<close> commits the inherited transaction.
\<close>

lemma delete_inherited_example:
  "fst (delete_helper (session_env False ''no'') (FreeTable ''`lab`.`session`'') True False inherited)
       = Inr ([CHR 10] @ ''The delete is pending within the ongoing transaction.'', False)
   \<and> in_transaction (snd (delete_helper (session_env False ''no'') (FreeTable ''`lab`.`session`'')
                              True False inherited))
   \<and> \<not> in_transaction (snd (delete (session_env False ''yes'') (FreeTable ''`lab`.`session`'')
                                True False inherited))
   \<and> CommitTransaction \<in> set (trace (snd (delete (session_env False ''yes'')
                                             (FreeTable ''`lab`.`session`'') True False inherited)))"
  by (simp add: delete_def delete_helper_def session_env_def toy_env_def session_graph_def
        FreeTable_def inherited_def isdigit_def restrict_by_me_def compile_restrictions_def
        emit_def delete_quick_def query_def view_def toy_exec_def rows_of_def session_db_def
        cancel_transaction_def commit_transaction_def getitem_def str_nat.simps)

subsection \<open>The nodes that restrict by their whole relation\<close>

text \<open>
  C5, as the code has it: the table is a member only if it carries a restriction, every
  numbered node among the descendants is a member (not only those on an edge from the
  table), and so is every secondary child of a descendant.
\<close>

theorem restrict_by_me_members:
  "make_delete_list E (descendants (dependencies E) (full_table_name self)) = Inr delete_list \<Longrightarrow>
   set (restrict_by_me E self (map fst delete_list)) =
     (if restriction self \<noteq> [] then {full_table_name self} else {})
     \<union> {n \<in> set (descendants (dependencies E) (full_table_name self)). isdigit n}
     \<union> (\<Union>d \<in> set (descendants (dependencies E) (full_table_name self)).
          fst ` set (children (dependencies E) d (Some False)))"
proof -
  assume "make_delete_list E (descendants (dependencies E) (full_table_name self)) = Inr delete_list"
  then have "set (map fst delete_list) = set (descendants (dependencies E) (full_table_name self))"
    by (rule make_delete_list_names)
  then show ?thesis
    unfolding restrict_by_me_def by (simp only: set_append set_filter set_concat set_map) auto
qed

theorem restrict_by_me_members_witness:
  "make_delete_list renamed_env
     (descendants (dependencies renamed_env) (full_table_name (FreeTable ''`s`.`a`''))) =
     Inr [(''`s`.`a`'', Tab (FreeTable ''`s`.`a`'')),
          (''`s`.`b`'', Tab (FreeTable ''`s`.`b`'')),
          (''1'', RenameMap ''`s`.`b`'' \<lparr>primary = True, aliased = True, attr_map = [(''src'', ''id'')]\<rparr>),
          (''`s`.`c`'', Tab (FreeTable ''`s`.`c`''))]
   \<and> set (restrict_by_me renamed_env (FreeTable ''`s`.`a`'')
            (map fst [(''`s`.`a`'', Tab (FreeTable ''`s`.`a`'')),
                      (''`s`.`b`'', Tab (FreeTable ''`s`.`b`'')),
                      (''1'', RenameMap ''`s`.`b`''
                         \<lparr>primary = True, aliased = True, attr_map = [(''src'', ''id'')]\<rparr>),
                      (''`s`.`c`'', Tab (FreeTable ''`s`.`c`''))])) = {''1''}"
proof -
  have h: "make_delete_list renamed_env
             (descendants (dependencies renamed_env) (full_table_name (FreeTable ''`s`.`a`''))) =
     Inr [(''`s`.`a`'', Tab (FreeTable ''`s`.`a`'')),
          (''`s`.`b`'', Tab (FreeTable ''`s`.`b`'')),
          (''1'', RenameMap ''`s`.`b`'' \<lparr>primary = True, aliased = True, attr_map = [(''src'', ''id'')]\<rparr>),
          (''`s`.`c`'', Tab (FreeTable ''`s`.`c`''))]"
    by (simp add: renamed_env_def toy_env_def renamed_graph_def isdigit_def FreeTable_def)
  have rhs: "(if restriction (FreeTable ''`s`.`a`'') \<noteq> []
              then {full_table_name (FreeTable ''`s`.`a`'')} else {})
     \<union> {n \<in> set (descendants (dependencies renamed_env) (full_table_name (FreeTable ''`s`.`a`''))).
          isdigit n}
     \<union> (\<Union>d \<in> set (descendants (dependencies renamed_env) (full_table_name (FreeTable ''`s`.`a`''))).
          fst ` set (children (dependencies renamed_env) d (Some False))) = {''1''}"
    by (auto simp: renamed_env_def toy_env_def renamed_graph_def isdigit_def FreeTable_def)
  from restrict_by_me_members [OF h] rhs h show ?thesis by (simp only: simp_thms)
qed

text \<open>
  C5 as the specification words it fails on this schema: the unrestricted table is not a
  member, and the numbered node between \<open>b\<close> and \<open>c\<close>, which is on no edge from the
  table, is one.
\<close>

theorem restrict_by_me_counterexample:
  "set (restrict_by_me renamed_env (FreeTable ''`s`.`a`'')
          (descendants (dependencies renamed_env) ''`s`.`a`''))
     \<noteq> restrictByMe_spec renamed_env (FreeTable ''`s`.`a`'')
   \<and> set (restrict_by_me renamed_env (FreeTable ''`s`.`a`'')
          (descendants (dependencies renamed_env) ''`s`.`a`'')) = {''1''}
   \<and> restrictByMe_spec renamed_env (FreeTable ''`s`.`a`'') = {''`s`.`a`''}"
  by (auto simp: restrict_by_me_def restrictByMe_spec_def renamed_env_def toy_env_def
        renamed_graph_def FreeTable_def isdigit_def)


section \<open>Properties of insert and insert1p\<close>

lemma split_on_no_sep: "d \<notin> set s \<Longrightarrow> split_on d s = [s]"
  by (induction s) auto

lemma split_on_append: "d \<notin> set a \<Longrightarrow> split_on d (a @ d # b) = a # split_on d b"
  by (induction a) auto

lemma strip_quoted: "q \<notin> set s \<Longrightarrow> strip q (q # s @ [q]) = s"
proof (cases s rule: rev_cases)
  case Nil
  then show ?thesis by (simp add: strip_def)
next
  case (snoc ys y)
  assume "q \<notin> set s"
  with snoc have "dropWhile (\<lambda>x. x = q) (s @ [q]) = s @ [q]"
    by (cases ys) auto
  with snoc \<open>q \<notin> set s\<close> show ?thesis by (auto simp: strip_def)
qed

text \<open>
  On a full table name in the quoted form the constructor gives back the handle of that
  name, as it is used for the names that come from the graph.
\<close>

lemma FreeTable_init_quoted:
  assumes "CHR ''.'' \<notin> set d" "CHR ''.'' \<notin> set t" "CHR 0x60 \<notin> set d" "CHR 0x60 \<notin> set t"
  shows "FreeTable_init (CHR 0x60 # d @ [CHR 0x60] @ ''.'' @ CHR 0x60 # t @ [CHR 0x60])
         = Inr (FreeTable (CHR 0x60 # d @ [CHR 0x60] @ ''.'' @ CHR 0x60 # t @ [CHR 0x60]))"
proof -
  have "split_on CHR ''.'' ((CHR 0x60 # d @ [CHR 0x60]) @ CHR ''.'' # (CHR 0x60 # t @ [CHR 0x60]))
        = [CHR 0x60 # d @ [CHR 0x60], CHR 0x60 # t @ [CHR 0x60]]"
    using assms by (subst split_on_append) (auto simp: split_on_no_sep)
  then show ?thesis
    using assms by (simp add: FreeTable_init_def strip_quoted)
qed


lemma inserts_into_simps [simp]:
  "inserts_into n (Insert n fl vals rep skip)"
  "inserts_into n (InsertSelect n fl src rep skip)"
  by (simp_all add: inserts_into_def)








text \<open>
  C10: when a primary key attribute of the master is not a column of the rows,
  \<open>insert1p\<close> fails and the connection is as before: no transaction opened, no statement
  sent.
\<close>

theorem insert1p_missing_key:
  "to_frame rows = Some df \<Longrightarrow>
   \<exists>a \<in> set (primary_key E (full_table_name self)). a \<notin> set (columns df) \<Longrightarrow>
   \<exists>e. insert1p E self rows kw c = (Inl e, c)"
  by (auto simp: insert1p_def Let_def split: option.splits)

theorem insert1p_missing_key_witness:
  "to_frame (Dict keyless) = Some \<lparr>columns = [''depth'', ''frame'', ''value''], records = [keyless]\<rparr>
   \<and> (\<exists>a \<in> set (primary_key (scan_env []) (full_table_name (FreeTable ''`lab`.`scan`''))).
         a \<notin> set (columns \<lparr>columns = [''depth'', ''frame'', ''value''], records = [keyless]\<rparr>))
   \<and> (\<exists>e. insert1p (scan_env []) (FreeTable ''`lab`.`scan`'') (Dict keyless) default_kwargs empty_conn
            = (Inl e, empty_conn))"
proof -
  have h1: "to_frame (Dict keyless)
            = Some \<lparr>columns = [''depth'', ''frame'', ''value''], records = [keyless]\<rparr>"
    by (simp add: to_frame_def keyless_def)
  have h2: "\<exists>a \<in> set (primary_key (scan_env []) (full_table_name (FreeTable ''`lab`.`scan`''))).
         a \<notin> set (columns \<lparr>columns = [''depth'', ''frame'', ''value''], records = [keyless]\<rparr>)"
    by (simp add: scan_env_def toy_env_def FreeTable_def)
  from insert1p_missing_key [OF h1 h2] h1 h2 show ?thesis by blast
qed

text \<open>
  C9, as the code has it: an empty sequence of rows, or a data frame without rows, given
  to \<open>insert\<close> on a table that accepts direct inserts, returns with the connection as it
  was: no statement was sent.
\<close>

theorem insert_empty_rows:
  "allow_direct_insert kw = Some True \<or> allow_insert E (full_table_name self) \<Longrightarrow>
   rows = Rows [] \<or> (\<exists>df. rows = DataFrameRows df \<and> records df = []) \<Longrightarrow>
   insert_rows E self rows kw c = (Inr (), c)"
  by (auto simp: insert_rows_def to_records_def split: option.splits)

theorem insert_empty_rows_witness:
  "(allow_direct_insert default_kwargs = Some True
      \<or> allow_insert (scan_env []) (full_table_name (FreeTable ''`lab`.`scan`'')))
   \<and> insert_rows (scan_env []) (FreeTable ''`lab`.`scan`'') (Rows []) default_kwargs empty_conn
       = (Inr (), empty_conn)"
proof -
  have h: "allow_direct_insert default_kwargs = Some True
           \<or> allow_insert (scan_env []) (full_table_name (FreeTable ''`lab`.`scan`''))"
    by (simp add: scan_env_def toy_env_def)
  from insert_empty_rows [OF h, of "Rows []" empty_conn] h show ?thesis by blast
qed

text \<open>
  C9 as stated fails. On an auto-populated table outside its \<open>make\<close> call
  (\<open>_allow_insert\<close> false, \<open>allow_direct_insert\<close> not given) an empty list of rows raises.
  And rows given as a query expression are inserted by one statement, also when the
  expression selects no row.
\<close>

theorem insert_empty_rows_counterexample:
  "(\<exists>msg. insert_rows ((scan_env [])\<lparr>allow_insert := (\<lambda>name. False)\<rparr>) (FreeTable ''`lab`.`scan`'')
             (Rows []) default_kwargs empty_conn = (Inl (DataJointError msg), empty_conn))
   \<and> count (scan_env []) (view empty_conn) (FreeTable ''`lab`.`scan__frame`'') = 0
   \<and> trace (snd (insert_rows (scan_env []) (FreeTable ''`lab`.`scan`'')
                    (QueryRows (FreeTable ''`lab`.`scan__frame`'') [''scan_id''])
                    default_kwargs empty_conn))
       = [Query (InsertSelect ''`lab`.`scan`'' [''scan_id''] (FreeTable ''`lab`.`scan__frame`'')
                   False False)]"
  by (simp add: insert_rows_def scan_env_def toy_env_def FreeTable_def default_kwargs_def
        empty_conn_def query_def view_def toy_exec_def emit_def rows_of_def)

section \<open>Properties of AutoMake\<close>








text \<open>
  C6: in \<open>make\<close>, once the function has returned \<open>raw\<close> and the hook has made
  \<open>make_compatible raw\<close> of it: a null result becomes the empty record, after a
  warning, and is accepted; with part tables a result raises the usage error exactly if
  it is neither a mapping nor tabular (a data frame or a record array); without part
  tables exactly if it is not a mapping; and no other error is raised at this point.
\<close>

theorem make_shape_check:
  assumes "fetch_entry s found = Inr entry"
    and "create_kwargs entry (entry_settings s) (global_settings s) (args s) (kwargs s) = Inr (a, kw)"
    and "func s a kw = Inr raw"
    and "fst (part_tables E self c) = Inr parts"
  shows "(make_compatible raw = ONone \<longrightarrow>
            make_checked E self s make_compatible found c
              = (Inr (ODict []),
                 emit LoadGraph (emit (Warning ''output of function is None for key'') c)))
       \<and> (make_compatible raw \<noteq> ONone \<longrightarrow>
            snd (make_checked E self s make_compatible found c) = emit LoadGraph c)
       \<and> ((\<exists>e. fst (make_checked E self s make_compatible found c) = Inl e) \<longleftrightarrow>
            (if parts \<noteq> []
             then make_compatible raw \<noteq> ONone \<and> \<not> is_mapping (make_compatible raw)
                  \<and> \<not> is_tabular (make_compatible raw)
             else make_compatible raw \<noteq> ONone \<and> \<not> is_mapping (make_compatible raw)))
       \<and> (\<forall>e. fst (make_checked E self s make_compatible found c) = Inl e \<longrightarrow>
              (\<exists>msg. e = DataJointError msg))"
proof -
  from assms(4) have pt: "part_tables E self c' = (Inr parts, emit LoadGraph c')" for c'
    by (simp add: part_tables_def)
  show ?thesis
  proof (cases "make_compatible raw")
    case ONone
    with assms(1-3) pt show ?thesis
      by (simp add: make_checked_def null_to_empty_def recarray_to_frame_def check_shape_def)
  next
    case (ODict d)
    with assms(1-3) pt show ?thesis
      by (simp add: make_checked_def null_to_empty_def recarray_to_frame_def check_shape_def
            is_mapping_def is_tabular_def)
  next
    case (ORecarray df)
    with assms(1-3) pt show ?thesis
      by (simp add: make_checked_def null_to_empty_def recarray_to_frame_def check_shape_def
            is_mapping_def is_tabular_def)
  next
    case (ODataFrame df)
    with assms(1-3) pt show ?thesis
      by (simp add: make_checked_def null_to_empty_def recarray_to_frame_def check_shape_def
            is_mapping_def is_tabular_def)
  next
    case (OOther v)
    with assms(1-3) pt show ?thesis
      by (simp add: make_checked_def null_to_empty_def recarray_to_frame_def check_shape_def
            is_mapping_def is_tabular_def)
  qed
qed

text \<open>
  On the example, whose function returns a list: the table \<open>session\<close> has no part
  tables and the result is refused; a hook that turns the result into null has it
  accepted as the empty record, with the warning.
\<close>

theorem make_shape_check_witness:
  "fetch_entry example_settings [example_entry] = Inr example_entry
   \<and> create_kwargs example_entry (entry_settings example_settings)
        (global_settings example_settings) (args example_settings) (kwargs example_settings)
       = Inr ([PInt 7, PInt 8],
              [(''x'', PInt 1), (''z'', PInt 9), (''y'', PTuple [PInt 2, PInt 3]),
               (''w'', PStr ''on'')])
   \<and> func example_settings [PInt 7, PInt 8]
        [(''x'', PInt 1), (''z'', PInt 9), (''y'', PTuple [PInt 2, PInt 3]), (''w'', PStr ''on'')]
       = Inr (OOther (PList [PInt 7, PInt 8]))
   \<and> fst (part_tables (session_env False ''no'') (FreeTable ''`lab`.`session`'') empty_conn) = Inr []
   \<and> (\<exists>e. fst (make_checked (session_env False ''no'') (FreeTable ''`lab`.`session`'')
               example_settings (\<lambda>out. out) [example_entry] empty_conn) = Inl e)
   \<and> make_checked (session_env False ''no'') (FreeTable ''`lab`.`session`'')
        example_settings (\<lambda>out. ONone) [example_entry] empty_conn
       = (Inr (ODict []),
          emit LoadGraph (emit (Warning ''output of function is None for key'') empty_conn))"
proof -
  have h1: "fetch_entry example_settings [example_entry] = Inr example_entry"
    by code_simp
  have h2: "create_kwargs example_entry (entry_settings example_settings)
        (global_settings example_settings) (args example_settings) (kwargs example_settings)
       = Inr ([PInt 7, PInt 8],
              [(''x'', PInt 1), (''z'', PInt 9), (''y'', PTuple [PInt 2, PInt 3]),
               (''w'', PStr ''on'')])"
    by code_simp
  have h3: "func example_settings [PInt 7, PInt 8]
        [(''x'', PInt 1), (''z'', PInt 9), (''y'', PTuple [PInt 2, PInt 3]), (''w'', PStr ''on'')]
       = Inr (OOther (PList [PInt 7, PInt 8]))"
    by (simp add: example_settings_def)
  have h4: "fst (part_tables (session_env False ''no'') (FreeTable ''`lab`.`session`'') empty_conn)
            = Inr []"
    by (simp add: part_tables_def session_env_def toy_env_def session_graph_def FreeTable_def)
  have m: "\<not> is_mapping (OOther (PList [PInt 7, PInt 8]))"
    by (simp add: is_mapping_def)
  from make_shape_check [OF h1 h2 h3 h4, of "\<lambda>out. out"] m
  have p1: "\<exists>e. fst (make_checked (session_env False ''no'') (FreeTable ''`lab`.`session`'')
               example_settings (\<lambda>out. out) [example_entry] empty_conn) = Inl e"
    by simp
  from make_shape_check [OF h1 h2 h3 h4, of "\<lambda>out. ONone"]
  have p2: "make_checked (session_env False ''no'') (FreeTable ''`lab`.`session`'')
        example_settings (\<lambda>out. ONone) [example_entry] empty_conn
       = (Inr (ODict []),
          emit LoadGraph (emit (Warning ''output of function is None for key'') empty_conn))"
    by simp
  from h1 h2 h3 h4 p1 p2 show ?thesis by blast
qed

section \<open>Properties of the guarded update\<close>






lemma only_notes_loaded: "only_notes err c c' \<Longrightarrow> dependencies_loaded c \<Longrightarrow> dependencies_loaded c'"
  by (auto simp: only_notes_def dependencies_loaded_def)
























end
